theory Spec2Isabelle
  imports Complex_Main "HOL-Library.Multiset"
begin

section \<open>Floating-point values\<close>

text \<open>
  Both programs compute with IEEE floating-point numbers: the renderer
  (\<^verbatim>\<open>src/tools/render_sdf_cpu.py\<close>) with Python and numpy doubles, the blending
  operators (\<^verbatim>\<open>src/tools/add_advanced_sdf_blending.py\<close>, the C++ text it inserts)
  with C++ floats. The model keeps the three special values, because the code
  produces and tests them (\<^verbatim>\<open>float('inf')\<close>, division by zero), and takes a
  finite value as an exact real: rounding, overflow and the sign of zero are
  not modelled. A zero divisor counts as positive zero.
\<close>

datatype fl = Fin real | PInf | NInf | NaN

fun fneg :: "fl \<Rightarrow> fl" where
  "fneg (Fin a) = Fin (- a)"
| "fneg PInf = NInf"
| "fneg NInf = PInf"
| "fneg NaN = NaN"

fun fadd :: "fl \<Rightarrow> fl \<Rightarrow> fl" where
  "fadd (Fin a) (Fin b) = Fin (a + b)"
| "fadd NaN _ = NaN"
| "fadd _ NaN = NaN"
| "fadd PInf NInf = NaN"
| "fadd NInf PInf = NaN"
| "fadd PInf _ = PInf"
| "fadd _ PInf = PInf"
| "fadd NInf _ = NInf"
| "fadd _ NInf = NInf"

definition fsub :: "fl \<Rightarrow> fl \<Rightarrow> fl" where
  "fsub a b = fadd a (fneg b)"

text \<open>The sign of a value that is not NaN: \<open>1\<close>, \<open>0\<close> or \<open>-1\<close>.\<close>

fun fsign :: "fl \<Rightarrow> int" where
  "fsign (Fin a) = (if 0 < a then 1 else if a < 0 then - 1 else 0)"
| "fsign PInf = 1"
| "fsign NInf = - 1"
| "fsign NaN = 0"

definition inf_of_sign :: "int \<Rightarrow> fl" where
  "inf_of_sign s = (if 0 < s then PInf else if s < 0 then NInf else NaN)"

fun fmul :: "fl \<Rightarrow> fl \<Rightarrow> fl" where
  "fmul (Fin a) (Fin b) = Fin (a * b)"
| "fmul NaN _ = NaN"
| "fmul _ NaN = NaN"
| "fmul a b = inf_of_sign (fsign a * fsign b)"

fun fdiv :: "fl \<Rightarrow> fl \<Rightarrow> fl" where
  "fdiv (Fin a) (Fin b) = (if b = 0 then inf_of_sign (fsign (Fin a)) else Fin (a / b))"
| "fdiv NaN _ = NaN"
| "fdiv _ NaN = NaN"
| "fdiv (Fin a) _ = Fin 0"
| "fdiv a (Fin b) = inf_of_sign (fsign a * (if b < 0 then - 1 else 1))"
| "fdiv _ _ = NaN"

fun fless :: "fl \<Rightarrow> fl \<Rightarrow> bool" where
  "fless (Fin a) (Fin b) = (a < b)"
| "fless NaN _ = False"
| "fless _ NaN = False"
| "fless NInf PInf = True"
| "fless NInf (Fin b) = True"
| "fless (Fin a) PInf = True"
| "fless _ _ = False"

definition feq :: "fl \<Rightarrow> fl \<Rightarrow> bool" where
  "feq a b = (a \<noteq> NaN \<and> a = b)"

fun fabs :: "fl \<Rightarrow> fl" where
  "fabs (Fin a) = Fin \<bar>a\<bar>"
| "fabs PInf = PInf"
| "fabs NInf = PInf"
| "fabs NaN = NaN"

fun fsqrt :: "fl \<Rightarrow> fl" where
  "fsqrt (Fin a) = (if a < 0 then NaN else Fin (sqrt a))"
| "fsqrt PInf = PInf"
| "fsqrt NInf = NaN"
| "fsqrt NaN = NaN"

fun fexp2 :: "fl \<Rightarrow> fl" where
  "fexp2 (Fin a) = Fin (2 powr a)"
| "fexp2 PInf = PInf"
| "fexp2 NInf = Fin 0"
| "fexp2 NaN = NaN"

fun flog2 :: "fl \<Rightarrow> fl" where
  "flog2 (Fin a) = (if 0 < a then Fin (log 2 a) else if a = 0 then NInf else NaN)"
| "flog2 PInf = PInf"
| "flog2 NInf = NaN"
| "flog2 NaN = NaN"

section \<open>The CSG blending operators\<close>

text \<open>
  \<^verbatim>\<open>std::min(a, b)\<close> is \<^verbatim>\<open>(b < a) ? b : a\<close> and \<^verbatim>\<open>std::max(a, b)\<close> is
  \<^verbatim>\<open>(a < b) ? b : a\<close>; \<^verbatim>\<open>glm::clamp(x, lo, hi)\<close> is \<^verbatim>\<open>min(max(x, lo), hi)\<close> with
  the same two comparisons, and \<^verbatim>\<open>glm::mix(x, y, a)\<close> is \<^verbatim>\<open>x * (1 - a) + y * a\<close>.
\<close>

definition std_min :: "fl \<Rightarrow> fl \<Rightarrow> fl" where
  "std_min a b = (if fless b a then b else a)"

definition std_max :: "fl \<Rightarrow> fl \<Rightarrow> fl" where
  "std_max a b = (if fless a b then b else a)"

definition glm_clamp :: "fl \<Rightarrow> fl \<Rightarrow> fl \<Rightarrow> fl" where
  "glm_clamp x minVal maxVal = std_min (std_max x minVal) maxVal"

definition glm_mix :: "fl \<Rightarrow> fl \<Rightarrow> fl \<Rightarrow> fl" where
  "glm_mix x y a = fadd (fmul x (fsub (Fin 1) a)) (fmul y a)"

text \<open>
  Modelled from the spec: the body of the quadratic \<^verbatim>\<open>SmoothUnion\<close> is missing
  (the source declares it in the header text and calls it from
  \<^verbatim>\<open>DistanceAwareSmoothUnion\<close>; the body is in \<^verbatim>\<open>SDFPrimitive.cpp\<close>, which is not
  among the sources). The specification gives it as
  \<^verbatim>\<open>h = clamp(0.5 + 0.5*(d2 - d1)/k, 0, 1); mix(d2, d1, h) - k*h*(1 - h)\<close>,
  the sign-flipped form of the \<^verbatim>\<open>SmoothIntersection\<close> that the source does show.
\<close>

definition SmoothUnion :: "fl \<Rightarrow> fl \<Rightarrow> fl \<Rightarrow> fl" where
  "SmoothUnion d1 d2 k =
     (let h = glm_clamp (fadd (Fin 0.5) (fdiv (fmul (Fin 0.5) (fsub d2 d1)) k)) (Fin 0) (Fin 1)
      in fsub (glm_mix d2 d1 h) (fmul (fmul k h) (fsub (Fin 1) h)))"

definition SmoothIntersection :: "fl \<Rightarrow> fl \<Rightarrow> fl \<Rightarrow> fl" where
  "SmoothIntersection d1 d2 k =
     (let h = glm_clamp (fsub (Fin 0.5) (fdiv (fmul (Fin 0.5) (fsub d2 d1)) k)) (Fin 0) (Fin 1)
      in fadd (glm_mix d2 d1 h) (fmul (fmul k h) (fsub (Fin 1) h)))"

definition ExponentialSmoothUnion :: "fl \<Rightarrow> fl \<Rightarrow> fl \<Rightarrow> fl" where
  "ExponentialSmoothUnion d1 d2 k =
     (if feq k (Fin 0) then std_min d1 d2
      else let res = fadd (fexp2 (fmul (fneg k) d1)) (fexp2 (fmul (fneg k) d2))
           in fdiv (fneg (flog2 res)) k)"

text \<open>
  \<^verbatim>\<open>std::pow\<close> is a function of the C library; \<open>PowerSmoothUnion\<close> takes it as
  the parameter \<open>pow\<close>.
\<close>

definition PowerSmoothUnion :: "(fl \<Rightarrow> fl \<Rightarrow> fl) \<Rightarrow> fl \<Rightarrow> fl \<Rightarrow> fl \<Rightarrow> fl" where
  "PowerSmoothUnion pow d1 d2 k =
     (if feq k (Fin 0) then std_min d1 d2
      else let a = pow d1 k; b = pow d2 k
           in pow (fdiv (fmul a b) (fadd a b)) (fdiv (Fin 1) k))"

definition CubicSmoothUnion :: "fl \<Rightarrow> fl \<Rightarrow> fl \<Rightarrow> fl" where
  "CubicSmoothUnion d1 d2 k =
     (if feq k (Fin 0) then std_min d1 d2
      else let h = fdiv (std_max (fsub k (fabs (fsub d1 d2))) (Fin 0)) k;
               m = fmul (fmul (fmul h h) h) (Fin 0.5);
               s = fmul (fmul m k) (fdiv (Fin 1) (Fin 3))
           in if fless d1 d2 then fsub d1 s else fsub d2 s)"

definition DistanceAwareSmoothUnion :: "fl \<Rightarrow> fl \<Rightarrow> fl \<Rightarrow> fl \<Rightarrow> fl" where
  "DistanceAwareSmoothUnion d1 d2 k minDist =
     (let dist = fabs (fsub d1 d2)
      in if fless minDist dist then std_min d1 d2
         else let falloff = fsub (Fin 1) (fdiv dist minDist);
                  effectiveK = fmul k falloff
              in SmoothUnion d1 d2 effectiveK)"

section \<open>Python and numpy arithmetic\<close>

text \<open>
  Python's \<^verbatim>\<open>min(a, b)\<close> returns \<open>a\<close> unless \<open>b < a\<close>, and \<^verbatim>\<open>max(a, b)\<close>
  returns \<open>a\<close> unless \<open>b > a\<close>. numpy's \<^verbatim>\<open>maximum\<close>, \<^verbatim>\<open>minimum\<close> and \<^verbatim>\<open>clip\<close>
  propagate NaN.
\<close>

definition py_min :: "fl \<Rightarrow> fl \<Rightarrow> fl" where
  "py_min a b = (if fless b a then b else a)"

definition py_max :: "fl \<Rightarrow> fl \<Rightarrow> fl" where
  "py_max a b = (if fless a b then b else a)"

definition np_maximum :: "fl \<Rightarrow> fl \<Rightarrow> fl" where
  "np_maximum a b = (if a = NaN \<or> b = NaN then NaN else if fless a b then b else a)"

definition np_minimum :: "fl \<Rightarrow> fl \<Rightarrow> fl" where
  "np_minimum a b = (if a = NaN \<or> b = NaN then NaN else if fless b a then b else a)"

definition np_clip :: "fl \<Rightarrow> fl \<Rightarrow> fl \<Rightarrow> fl" where
  "np_clip x lo hi = np_minimum (np_maximum x lo) hi"

type_synonym vec3 = "fl \<times> fl \<times> fl"

fun vadd :: "vec3 \<Rightarrow> vec3 \<Rightarrow> vec3" where
  "vadd (a0, a1, a2) (b0, b1, b2) = (fadd a0 b0, fadd a1 b1, fadd a2 b2)"

fun vsub :: "vec3 \<Rightarrow> vec3 \<Rightarrow> vec3" where
  "vsub (a0, a1, a2) (b0, b1, b2) = (fsub a0 b0, fsub a1 b1, fsub a2 b2)"

fun vneg :: "vec3 \<Rightarrow> vec3" where
  "vneg (a0, a1, a2) = (fneg a0, fneg a1, fneg a2)"

fun vmul :: "vec3 \<Rightarrow> vec3 \<Rightarrow> vec3" where
  "vmul (a0, a1, a2) (b0, b1, b2) = (fmul a0 b0, fmul a1 b1, fmul a2 b2)"

fun vdiv :: "vec3 \<Rightarrow> vec3 \<Rightarrow> vec3" where
  "vdiv (a0, a1, a2) (b0, b1, b2) = (fdiv a0 b0, fdiv a1 b1, fdiv a2 b2)"

text \<open>A vector times, or divided by, a scalar.\<close>

fun vscale :: "vec3 \<Rightarrow> fl \<Rightarrow> vec3" where
  "vscale (a0, a1, a2) s = (fmul a0 s, fmul a1 s, fmul a2 s)"

fun vdivs :: "vec3 \<Rightarrow> fl \<Rightarrow> vec3" where
  "vdivs (a0, a1, a2) s = (fdiv a0 s, fdiv a1 s, fdiv a2 s)"

fun vabs :: "vec3 \<Rightarrow> vec3" where
  "vabs (a0, a1, a2) = (fabs a0, fabs a1, fabs a2)"

fun dot :: "vec3 \<Rightarrow> vec3 \<Rightarrow> fl" where
  "dot (a0, a1, a2) (b0, b1, b2) = fadd (fadd (fmul a0 b0) (fmul a1 b1)) (fmul a2 b2)"

fun cross :: "vec3 \<Rightarrow> vec3 \<Rightarrow> vec3" where
  "cross (a0, a1, a2) (b0, b1, b2) =
     (fsub (fmul a1 b2) (fmul a2 b1),
      fsub (fmul a2 b0) (fmul a0 b2),
      fsub (fmul a0 b1) (fmul a1 b0))"

text \<open>\<^verbatim>\<open>np.linalg.norm\<close> of a vector of three and of two components.\<close>

definition norm3 :: "vec3 \<Rightarrow> fl" where
  "norm3 v = fsqrt (dot v v)"

definition norm2 :: "fl \<Rightarrow> fl \<Rightarrow> fl" where
  "norm2 a b = fsqrt (fadd (fmul a a) (fmul b b))"

definition normalize_vec :: "vec3 \<Rightarrow> vec3" where
  "normalize_vec v =
     (let length = norm3 v
      in if fless length (Fin (1 / 10 ^ 10)) then v else vdivs v length)"

section \<open>The primitive distance functions\<close>

definition sdf_sphere :: "vec3 \<Rightarrow> fl \<Rightarrow> fl" where
  "sdf_sphere p radius = fsub (norm3 p) radius"

fun sdf_box :: "vec3 \<Rightarrow> vec3 \<Rightarrow> fl" where
  "sdf_box p size_v =
     (case vsub (vabs p) size_v of (q0, q1, q2) \<Rightarrow>
        fadd (norm3 (np_maximum q0 (Fin 0), np_maximum q1 (Fin 0), np_maximum q2 (Fin 0)))
             (py_min (py_max q0 (py_max q1 q2)) (Fin 0)))"

fun sdf_rounded_box :: "vec3 \<Rightarrow> vec3 \<Rightarrow> fl \<Rightarrow> fl" where
  "sdf_rounded_box p size_v radius =
     (case vsub (vabs p) size_v of (q0, q1, q2) \<Rightarrow>
        fsub (fadd (norm3 (np_maximum q0 (Fin 0), np_maximum q1 (Fin 0), np_maximum q2 (Fin 0)))
                   (py_min (py_max q0 (py_max q1 q2)) (Fin 0)))
             radius)"

definition sdf_ellipsoid :: "vec3 \<Rightarrow> vec3 \<Rightarrow> fl" where
  "sdf_ellipsoid p radii =
     (let k0 = norm3 (vdiv p radii);
          k1 = norm3 (vdiv p (vmul radii radii))
      in if fless (Fin (1 / 10 ^ 10)) k1 then fdiv (fmul k0 (fsub k0 (Fin 1))) k1
         else Fin (- 1))"

fun sdf_capsule :: "vec3 \<Rightarrow> fl \<Rightarrow> fl \<Rightarrow> fl" where
  "sdf_capsule (p0, p1, p2) radius height =
     (let h = fdiv height (Fin 2);
          p_y = fsub p1 (np_clip p1 (fneg h) h)
      in fsub (fsqrt (fadd (fmul p_y p_y) (fadd (fmul p0 p0) (fmul p2 p2)))) radius)"

fun sdf_torus :: "vec3 \<Rightarrow> fl \<Rightarrow> fl \<Rightarrow> fl" where
  "sdf_torus (p0, p1, p2) major_radius minor_radius =
     fsub (norm2 (fsub (norm2 p0 p2) major_radius) p1) minor_radius"

fun sdf_cylinder :: "vec3 \<Rightarrow> fl \<Rightarrow> fl \<Rightarrow> fl" where
  "sdf_cylinder (p0, p1, p2) radius height =
     (let d0 = fsub (norm2 p0 p2) radius;
          d1 = fsub (fabs p1) (fdiv height (Fin 2))
      in fadd (py_min (py_max d0 d1) (Fin 0))
              (norm2 (np_maximum d0 (Fin 0)) (np_maximum d1 (Fin 0))))"

section \<open>The asset description\<close>

text \<open>
  The asset is a JSON document; a key that the code reads with \<^verbatim>\<open>.get(key, default)\<close>
  is an optional field. \<^verbatim>\<open>prim['type']\<close> and \<^verbatim>\<open>prim['transform']['position']\<close> are
  read without a default and are plain fields. \<^verbatim>\<open>csgOperation\<close> is the declared
  operator of a primitive, one of the three hard operators here; the renderer
  reads none of them. A field carries the name of its key after a prefix for
  its dictionary (\<open>mat_\<close>, \<open>param_\<close>, \<open>prim_\<close>, \<open>cam_\<close>, \<open>dir_\<close>, \<open>light_\<close>, \<open>model_\<close>).
\<close>

record material_dict =
  mat_albedo :: "vec3 option"
  mat_metallic :: "fl option"
  mat_roughness :: "fl option"
  mat_emissive :: "vec3 option"
  mat_emissiveStrength :: "fl option"

record params_dict =
  param_radius :: "fl option"
  param_size :: "vec3 option"
  param_radii :: "vec3 option"
  param_height :: "fl option"
  param_majorRadius :: "fl option"
  param_minorRadius :: "fl option"

datatype csg_operation = Union_op | Subtraction_op | Intersection_op

record primitive =
  prim_type :: string
  prim_position :: vec3
  prim_params :: "params_dict option"
  prim_material :: "material_dict option"
  prim_csgOperation :: csg_operation

record camera_dict =
  cam_position :: "vec3 option"
  cam_lookAt :: "vec3 option"
  cam_fov :: "fl option"

record directional_dict =
  dir_direction :: "vec3 option"
  dir_intensity :: "fl option"

record lighting_dict =
  light_directional :: "directional_dict option"
  light_ambient :: "fl option"

record sdf_model_dict =
  model_primitives :: "primitive list option"
  model_camera :: "camera_dict option"
  model_lighting :: "lighting_dict option"

record asset =
  sdfModel :: "sdf_model_dict option"

text \<open>\<^verbatim>\<open>d.get(key, default)\<close> on an optional field.\<close>

definition get_default :: "'a option \<Rightarrow> 'a \<Rightarrow> 'a" where
  "get_default v d = (case v of None \<Rightarrow> d | Some x \<Rightarrow> x)"

definition empty_params :: params_dict where
  "empty_params = \<lparr>param_radius = None, param_size = None, param_radii = None,
     param_height = None, param_majorRadius = None, param_minorRadius = None\<rparr>"

definition empty_material :: material_dict where
  "empty_material = \<lparr>mat_albedo = None, mat_metallic = None, mat_roughness = None,
     mat_emissive = None, mat_emissiveStrength = None\<rparr>"

definition empty_camera :: camera_dict where
  "empty_camera = \<lparr>cam_position = None, cam_lookAt = None, cam_fov = None\<rparr>"

definition empty_directional :: directional_dict where
  "empty_directional = \<lparr>dir_direction = None, dir_intensity = None\<rparr>"

definition empty_lighting :: lighting_dict where
  "empty_lighting = \<lparr>light_directional = None, light_ambient = None\<rparr>"

definition empty_sdf_model :: sdf_model_dict where
  "empty_sdf_model = \<lparr>model_primitives = None, model_camera = None, model_lighting = None\<rparr>"

section \<open>The scene evaluator\<close>

definition evaluate_primitive :: "vec3 \<Rightarrow> primitive \<Rightarrow> primitive list \<Rightarrow> fl \<times> material_dict" where
  "evaluate_primitive p prim prims =
     (let pos = prim_position prim;
          p_local = vsub p pos;
          ps = get_default (prim_params prim) empty_params;
          d = (if prim_type prim = ''Sphere'' then
                 sdf_sphere p_local (get_default (param_radius ps) (Fin 0.5))
               else if prim_type prim = ''Box'' then
                 sdf_box p_local (get_default (param_size ps) (Fin 0.5, Fin 0.5, Fin 0.5))
               else if prim_type prim = ''RoundedBox'' then
                 sdf_rounded_box p_local (get_default (param_size ps) (Fin 0.5, Fin 0.5, Fin 0.5))
                   (get_default (param_radius ps) (Fin 0.1))
               else if prim_type prim = ''Ellipsoid'' then
                 sdf_ellipsoid p_local (get_default (param_radii ps) (Fin 0.5, Fin 0.5, Fin 0.5))
               else if prim_type prim = ''Capsule'' then
                 sdf_capsule p_local (get_default (param_radius ps) (Fin 0.2))
                   (get_default (param_height ps) (Fin 1))
               else if prim_type prim = ''Torus'' then
                 sdf_torus p_local (get_default (param_majorRadius ps) (Fin 0.5))
                   (get_default (param_minorRadius ps) (Fin 0.1))
               else if prim_type prim = ''Cylinder'' then
                 sdf_cylinder p_local (get_default (param_radius ps) (Fin 0.3))
                   (get_default (param_height ps) (Fin 1))
               else PInf)
      in (d, get_default (prim_material prim) empty_material))"

text \<open>
  The loop of \<^verbatim>\<open>scene_sdf\<close>, with its two variables \<^verbatim>\<open>min_dist\<close> and
  \<^verbatim>\<open>closest_material\<close> (\<open>None\<close> until a primitive is nearer than \<open>+inf\<close>).
\<close>

fun scene_sdf_loop ::
  "vec3 \<Rightarrow> primitive list \<Rightarrow> primitive list \<Rightarrow> fl \<Rightarrow> material_dict option
   \<Rightarrow> fl \<times> material_dict option" where
  "scene_sdf_loop p prims [] min_dist closest_material = (min_dist, closest_material)"
| "scene_sdf_loop p prims (prim # rest) min_dist closest_material =
     (case evaluate_primitive p prim prims of (d, mat) \<Rightarrow>
        if fless d min_dist then scene_sdf_loop p prims rest d (Some mat)
        else scene_sdf_loop p prims rest min_dist closest_material)"

definition scene_sdf :: "vec3 \<Rightarrow> primitive list \<Rightarrow> fl \<times> material_dict option" where
  "scene_sdf p prims = scene_sdf_loop p prims prims PInf None"

section \<open>The raymarcher\<close>

datatype hit_result = Hit fl "material_dict option" vec3 | Miss

text \<open>
  The \<^verbatim>\<open>for\<close> loop of \<^verbatim>\<open>raymarch\<close>: the first argument is the number of iterations
  left, \<open>t\<close> the travel so far. The last argument counts the calls of \<^verbatim>\<open>scene_sdf\<close>;
  the count is returned with the result.
\<close>

fun raymarch_loop ::
  "nat \<Rightarrow> vec3 \<Rightarrow> vec3 \<Rightarrow> primitive list \<Rightarrow> fl \<Rightarrow> fl \<Rightarrow> nat \<Rightarrow> hit_result \<times> nat" where
  "raymarch_loop 0 ray_origin ray_dir prims max_dist t evals = (Miss, evals)"
| "raymarch_loop (Suc steps) ray_origin ray_dir prims max_dist t evals =
     (let p = vadd ray_origin (vscale ray_dir t)
      in case scene_sdf p prims of (d, mat) \<Rightarrow>
           if fless d (Fin 0.001) then (Hit t mat p, Suc evals)
           else let t' = fadd t d
                in if fless max_dist t' then (Miss, Suc evals)
                   else raymarch_loop steps ray_origin ray_dir prims max_dist t' (Suc evals))"

definition raymarch_counted :: "vec3 \<Rightarrow> vec3 \<Rightarrow> primitive list \<Rightarrow> hit_result \<times> nat" where
  "raymarch_counted ray_origin ray_dir prims =
     raymarch_loop 64 ray_origin ray_dir prims (Fin 20) (Fin 0) 0"

definition raymarch :: "vec3 \<Rightarrow> vec3 \<Rightarrow> primitive list \<Rightarrow> hit_result" where
  "raymarch ray_origin ray_dir prims = fst (raymarch_counted ray_origin ray_dir prims)"

section \<open>Normals, shading and the image\<close>

definition calculate_normal :: "vec3 \<Rightarrow> primitive list \<Rightarrow> vec3" where
  "calculate_normal p prims =
     (let eps = Fin 0.001;
          d = fst (scene_sdf p prims);
          dx = fst (scene_sdf (vadd p (eps, Fin 0, Fin 0)) prims);
          dy = fst (scene_sdf (vadd p (Fin 0, eps, Fin 0)) prims);
          dz = fst (scene_sdf (vadd p (Fin 0, Fin 0, eps)) prims)
      in normalize_vec (fsub dx d, fsub dy d, fsub dz d))"

datatype error = ZeroDivisionError | ValueError | OverflowError | AttributeError

text \<open>\<^verbatim>\<open>int(x)\<close> truncates towards zero and raises on NaN and on an infinity.\<close>

fun py_int :: "fl \<Rightarrow> error + int" where
  "py_int (Fin a) = Inr (if 0 \<le> a then \<lfloor>a\<rfloor> else \<lceil>a\<rceil>)"
| "py_int NaN = Inl ValueError"
| "py_int PInf = Inl OverflowError"
| "py_int NInf = Inl OverflowError"

type_synonym pixel = "int \<times> int \<times> int \<times> int"

text \<open>The direction of the ray through pixel \<open>(x, y)\<close>, for \<open>width\<close> and \<open>height\<close> not zero.\<close>

definition pixel_ray_dir :: "int \<Rightarrow> int \<Rightarrow> int \<Rightarrow> int \<Rightarrow> vec3 \<Rightarrow> vec3 \<Rightarrow> vec3" where
  "pixel_ray_dir x y width height camera_pos camera_target =
     (let ndc_x = Fin ((2 * real_of_int x / real_of_int width - 1)
                       * (real_of_int width / real_of_int height));
          ndc_y = Fin (- (2 * real_of_int y / real_of_int height - 1));
          forward = normalize_vec (vsub camera_target camera_pos);
          right = normalize_vec (cross forward (Fin 0, Fin 1, Fin 0));
          up = normalize_vec (cross right forward);
          fov = 35 * pi / 180;
          tan_half = Fin (tan (fov / 2))
      in normalize_vec (vadd (vadd forward (vscale (vscale right ndc_x) tan_half))
                         (vscale (vscale up ndc_y) tan_half)))"

definition render_pixel ::
  "int \<Rightarrow> int \<Rightarrow> int \<Rightarrow> int \<Rightarrow> vec3 \<Rightarrow> vec3 \<Rightarrow> primitive list \<Rightarrow> vec3 \<Rightarrow> error + pixel" where
  "render_pixel x y width height camera_pos camera_target prims light_dir =
     (if width = 0 \<or> height = 0 then Inl ZeroDivisionError
      else
        let ray_dir = pixel_ray_dir x y width height camera_pos camera_target
        in case raymarch camera_pos ray_dir prims of
             Miss \<Rightarrow> Inr (0, 0, 0, 0)
           | Hit t mat hit_point \<Rightarrow>
               let normal = calculate_normal hit_point prims;
                   light_intensity = py_max (Fin 0) (dot normal (vneg light_dir))
               in case mat of
                    None \<Rightarrow> Inl AttributeError
                  | Some m \<Rightarrow>
                      let albedo_v = get_default (mat_albedo m) (Fin 0.7, Fin 0.7, Fin 0.7);
                          emissive_v = get_default (mat_emissive m) (Fin 0, Fin 0, Fin 0);
                          emissive_strength = get_default (mat_emissiveStrength m) (Fin 0);
                          ambient = Fin 0.3;
                          diffuse = fmul (Fin 0.7) light_intensity;
                          color = vadd (vscale albedo_v (fadd ambient diffuse))
                                       (vscale emissive_v emissive_strength)
                      in case color of (c0, c1, c2) \<Rightarrow>
                           (case py_int (fmul (np_clip c0 (Fin 0) (Fin 1)) (Fin 255)) of
                              Inl e \<Rightarrow> Inl e
                            | Inr r \<Rightarrow>
                           (case py_int (fmul (np_clip c1 (Fin 0) (Fin 1)) (Fin 255)) of
                              Inl e \<Rightarrow> Inl e
                            | Inr g \<Rightarrow>
                           (case py_int (fmul (np_clip c2 (Fin 0) (Fin 1)) (Fin 255)) of
                              Inl e \<Rightarrow> Inl e
                            | Inr b \<Rightarrow> Inr (r, g, b, 255)))))"

record rgba_image =
  img_width :: int
  img_height :: int
  img_rows :: "pixel list list"

text \<open>The elements of a list of results, or the first error in list order.\<close>

fun collect :: "(error + 'a) list \<Rightarrow> error + 'a list" where
  "collect [] = Inr []"
| "collect (Inl e # rs) = Inl e"
| "collect (Inr v # rs) = (case collect rs of Inl e \<Rightarrow> Inl e | Inr vs \<Rightarrow> Inr (v # vs))"

text \<open>
  \<^verbatim>\<open>render_asset\<close> returns \<open>None\<close> for an empty primitive list. \<^verbatim>\<open>Image.new\<close> raises
  \<^verbatim>\<open>ValueError\<close> on a negative width or height. The rows are rendered in the order
  \<open>y = 0, 1, ...\<close>, each from \<open>x = 0\<close> on.
\<close>

definition render_asset :: "asset \<Rightarrow> int \<Rightarrow> int \<Rightarrow> error + rgba_image option" where
  "render_asset asset_data width height =
     (let sdf_model = get_default (sdfModel asset_data) empty_sdf_model;
          prims = get_default (model_primitives sdf_model) []
      in if prims = [] then Inr None
         else
           let camera_data = get_default (model_camera sdf_model) empty_camera;
               camera_pos = get_default (cam_position camera_data) (Fin 3, Fin 1.8, Fin 4);
               camera_target = get_default (cam_lookAt camera_data) (Fin 0, Fin 1.2, Fin 0);
               lighting_data = get_default (model_lighting sdf_model) empty_lighting;
               directional_d = get_default (light_directional lighting_data) empty_directional;
               light_dir = normalize_vec (get_default (dir_direction directional_d)
                                        (Fin (- 0.45), Fin (- 1.2), Fin (- 0.65)))
           in if width < 0 \<or> height < 0 then Inl ValueError
              else case collect (map (\<lambda>y. collect (map (\<lambda>x.
                            render_pixel x y width height camera_pos camera_target prims light_dir)
                          [0..width - 1])) [0..height - 1]) of
                     Inl e \<Rightarrow> Inl e
                   | Inr rows \<Rightarrow> Inr (Some \<lparr>img_width = width, img_height = height,
                                            img_rows = rows\<rparr>))"

section \<open>Notions used to state the properties\<close>

text \<open>
  \<^verbatim>\<open>evaluate_primitive\<close> does not use its third argument; \<open>prim_dist\<close> and \<open>prim_mat\<close>
  are the distance and the material it returns for one primitive.
\<close>

definition prim_dist :: "vec3 \<Rightarrow> primitive \<Rightarrow> fl" where
  "prim_dist p prim = fst (evaluate_primitive p prim [])"

definition prim_mat :: "vec3 \<Rightarrow> primitive \<Rightarrow> material_dict" where
  "prim_mat p prim = snd (evaluate_primitive p prim [])"

text \<open>
  The hard CSG operators in the words of the specification (union is \<open>min\<close>,
  subtraction \<open>max(d1, -d2)\<close>, intersection \<open>max(d1, d2)\<close>), and the composite
  distance that a fold with each primitive's declared operator would give, from
  the same start \<open>+inf\<close> as the code. \<open>union_composite\<close> is the fold with the hard
  union for every primitive.
\<close>

fun csg_apply :: "csg_operation \<Rightarrow> fl \<Rightarrow> fl \<Rightarrow> fl" where
  "csg_apply Union_op d1 d2 = py_min d1 d2"
| "csg_apply Subtraction_op d1 d2 = py_max d1 (fneg d2)"
| "csg_apply Intersection_op d1 d2 = py_max d1 d2"

definition declared_composite :: "vec3 \<Rightarrow> primitive list \<Rightarrow> fl" where
  "declared_composite p prims =
     foldl (\<lambda>acc prim. csg_apply (prim_csgOperation prim) acc (prim_dist p prim)) PInf prims"

definition union_composite :: "vec3 \<Rightarrow> primitive list \<Rightarrow> fl" where
  "union_composite p prims = foldl (\<lambda>acc prim. csg_apply Union_op acc (prim_dist p prim)) PInf prims"

text \<open>
  The ray: the point at travel \<open>t\<close>, the scene distance there, the travel after one
  more step, and the travel after \<open>i\<close> steps from \<open>0\<close> when nothing stops the march.
\<close>

definition ray_point :: "vec3 \<Rightarrow> vec3 \<Rightarrow> fl \<Rightarrow> vec3" where
  "ray_point ray_origin ray_dir t = vadd ray_origin (vscale ray_dir t)"

definition scene_dist_at :: "vec3 \<Rightarrow> vec3 \<Rightarrow> primitive list \<Rightarrow> fl \<Rightarrow> fl" where
  "scene_dist_at ray_origin ray_dir prims t = fst (scene_sdf (ray_point ray_origin ray_dir t) prims)"

definition march_step :: "vec3 \<Rightarrow> vec3 \<Rightarrow> primitive list \<Rightarrow> fl \<Rightarrow> fl" where
  "march_step ray_origin ray_dir prims t = fadd t (scene_dist_at ray_origin ray_dir prims t)"

definition travel :: "vec3 \<Rightarrow> vec3 \<Rightarrow> primitive list \<Rightarrow> nat \<Rightarrow> fl" where
  "travel ray_origin ray_dir prims i = (march_step ray_origin ray_dir prims ^^ i) (Fin 0)"

definition below_epsilon :: "vec3 \<Rightarrow> vec3 \<Rightarrow> primitive list \<Rightarrow> fl \<Rightarrow> bool" where
  "below_epsilon ray_origin ray_dir prims t = fless (scene_dist_at ray_origin ray_dir prims t) (Fin 0.001)"

text \<open>
  The camera projection in the words of the specification: an orthonormal basis
  from \<open>forward = normalize(target - position)\<close>, \<open>right = normalize(forward x worldUp)\<close>
  and \<open>up = normalize(right x forward)\<close>, and a ray direction that blends \<open>forward\<close>
  with \<open>right\<close> and \<open>up\<close> scaled by the normalized device coordinates and by
  \<open>tan(fov / 2)\<close>. The first argument is that tangent.
\<close>

definition projected_ray_dir ::
  "real \<Rightarrow> int \<Rightarrow> int \<Rightarrow> int \<Rightarrow> int \<Rightarrow> vec3 \<Rightarrow> vec3 \<Rightarrow> vec3" where
  "projected_ray_dir tan_half_fov x y width height camera_pos camera_target =
     (let forward = normalize_vec (vsub camera_target camera_pos);
          right = normalize_vec (cross forward (Fin 0, Fin 1, Fin 0));
          up = normalize_vec (cross right forward);
          ndc_x = (2 * real_of_int x / real_of_int width - 1)
                    * (real_of_int width / real_of_int height);
          ndc_y = - (2 * real_of_int y / real_of_int height - 1)
      in normalize_vec
           (vadd (vadd forward (vscale (vscale right (Fin ndc_x)) (Fin tan_half_fov)))
                 (vscale (vscale up (Fin ndc_y)) (Fin tan_half_fov))))"

text \<open>The denominator \<open>k1\<close> of the ellipsoid distance.\<close>

definition ellipsoid_k1 :: "vec3 \<Rightarrow> vec3 \<Rightarrow> fl" where
  "ellipsoid_k1 p radii = norm3 (vdiv p (vmul radii radii))"

text \<open>
  The shading formula in the words of the specification, per channel:
  \<open>albedo * (ambient + diffuse * max(0, dot(normal, -lightDir))) + emissive * emissiveStrength\<close>
  with ambient \<open>0.3\<close> and diffuse coefficient \<open>0.7\<close>, clamped to \<open>[0, 1]\<close>; a key
  missing from the material takes the default of the code.
\<close>

definition shaded_channel :: "fl \<Rightarrow> fl \<Rightarrow> fl \<Rightarrow> fl \<Rightarrow> fl" where
  "shaded_channel albedo_c emissive_c strength lambert =
     np_clip (fadd (fmul albedo_c (fadd (Fin 0.3) (fmul (Fin 0.7) lambert)))
                   (fmul emissive_c strength)) (Fin 0) (Fin 1)"

definition shaded_color :: "material_dict \<Rightarrow> vec3 \<Rightarrow> vec3 \<Rightarrow> vec3" where
  "shaded_color m normal lightDir =
     (let lambert = py_max (Fin 0) (dot normal (vneg lightDir));
          strength = get_default (mat_emissiveStrength m) (Fin 0)
      in case (get_default (mat_albedo m) (Fin 0.7, Fin 0.7, Fin 0.7),
               get_default (mat_emissive m) (Fin 0, Fin 0, Fin 0)) of
           ((a0, a1, a2), (e0, e1, e2)) \<Rightarrow>
             (shaded_channel a0 e0 strength lambert,
              shaded_channel a1 e1 strength lambert,
              shaded_channel a2 e2 strength lambert))"

text \<open>Example scenes.\<close>

definition origin :: vec3 where
  "origin = (Fin 0, Fin 0, Fin 0)"

definition sphere_at :: "vec3 \<Rightarrow> material_dict option \<Rightarrow> csg_operation \<Rightarrow> primitive" where
  "sphere_at pos mat op = \<lparr>prim_type = ''Sphere'', prim_position = pos, prim_params = None,
     prim_material = mat, prim_csgOperation = op\<rparr>"

definition unknown_prim :: primitive where
  "unknown_prim = \<lparr>prim_type = ''Blob'', prim_position = origin, prim_params = None,
     prim_material = None, prim_csgOperation = Union_op\<rparr>"

definition red_material :: material_dict where
  "red_material = empty_material\<lparr>mat_albedo := Some (Fin 1, Fin 0, Fin 0)\<rparr>"

definition blue_material :: material_dict where
  "blue_material = empty_material\<lparr>mat_albedo := Some (Fin 0, Fin 0, Fin 1)\<rparr>"

definition green_material :: material_dict where
  "green_material = empty_material\<lparr>mat_albedo := Some (Fin 0, Fin 1, Fin 0)\<rparr>"

definition empty_scene_asset :: asset where
  "empty_scene_asset = \<lparr>sdfModel = Some (empty_sdf_model\<lparr>model_primitives := Some []\<rparr>)\<rparr>"

section \<open>The blending operators at \<open>k = 0\<close> and at distant inputs\<close>

lemma std_min_Fin: "std_min (Fin a) (Fin b) = Fin (min a b)"
  by (simp add: std_min_def min_def)

lemma ExponentialSmoothUnion_zero: "ExponentialSmoothUnion d1 d2 (Fin 0) = std_min d1 d2"
  by (simp add: ExponentialSmoothUnion_def feq_def)

lemma PowerSmoothUnion_zero: "PowerSmoothUnion pow d1 d2 (Fin 0) = std_min d1 d2"
  by (simp add: PowerSmoothUnion_def feq_def)

lemma CubicSmoothUnion_zero: "CubicSmoothUnion d1 d2 (Fin 0) = std_min d1 d2"
  by (simp add: CubicSmoothUnion_def feq_def)

lemma SmoothUnion_zero_less:
  assumes "a < b"
  shows "SmoothUnion (Fin a) (Fin b) (Fin 0) = Fin a"
  using assms
  by (simp add: SmoothUnion_def glm_clamp_def glm_mix_def std_min_def std_max_def
      fsub_def inf_of_sign_def)

lemma SmoothUnion_zero_greater:
  assumes "b < a"
  shows "SmoothUnion (Fin a) (Fin b) (Fin 0) = Fin b"
  using assms
  by (simp add: SmoothUnion_def glm_clamp_def glm_mix_def std_min_def std_max_def
      fsub_def inf_of_sign_def)

lemma SmoothUnion_zero_equal: "SmoothUnion (Fin a) (Fin a) (Fin 0) = NaN"
  by (simp add: SmoothUnion_def glm_clamp_def glm_mix_def std_min_def std_max_def
      fsub_def inf_of_sign_def)

text \<open>
  C1. With \<open>k = 0\<close> the three operators that test \<open>k == 0\<close> return the hard
  union (lemmas \<open>ExponentialSmoothUnion_zero\<close>, \<open>PowerSmoothUnion_zero\<close>,
  \<open>CubicSmoothUnion_zero\<close>). The quadratic smooth union and the distance-aware
  union have no such test and divide by \<open>k\<close>: at the equal finite distances
  \<open>d1 = d2 = 1\<close> with \<open>k = 0\<close> (and \<open>minDist = 1\<close>) both evaluate \<open>0 / 0\<close> and return
  NaN, where the hard union \<open>min(d1, d2)\<close> is \<open>1\<close>. With \<open>minDist = 0\<close> the
  distance-aware union divides \<open>0\<close> by \<open>minDist\<close> already for its falloff, and the
  NaN coefficient reaches the quadratic smooth union.
\<close>

theorem smooth_union_zero_k_equal_distances:
  "DistanceAwareSmoothUnion (Fin 1) (Fin 1) (Fin 0) (Fin 1) = NaN
   \<and> DistanceAwareSmoothUnion (Fin 1) (Fin 1) (Fin 0) (Fin 0) = NaN
   \<and> SmoothUnion (Fin 1) (Fin 1) (Fin 0) = NaN
   \<and> std_min (Fin 1) (Fin 1) = Fin 1"
  by (simp add: DistanceAwareSmoothUnion_def SmoothUnion_def glm_clamp_def glm_mix_def
      std_min_def std_max_def fsub_def inf_of_sign_def)

text \<open>
  C6. Whenever \<open>|d1 - d2| > minDist\<close>, the distance-aware smooth union is the
  hard union \<open>std::min(d1, d2)\<close>, for every \<open>k\<close> (NaN and the infinities
  included); on finite distances that is the smaller of the two
  (lemma \<open>std_min_Fin\<close>).
\<close>

theorem DistanceAwareSmoothUnion_far_apart:
  assumes "fless minDist (fabs (fsub d1 d2))"
  shows "DistanceAwareSmoothUnion d1 d2 k minDist = std_min d1 d2"
  using assms by (simp add: DistanceAwareSmoothUnion_def)

theorem DistanceAwareSmoothUnion_far_apart_witness:
  "fless (Fin 1) (fabs (fsub (Fin 0.5) (Fin 3)))
   \<and> DistanceAwareSmoothUnion (Fin 0.5) (Fin 3) (Fin 0.25) (Fin 1) = Fin 0.5"
proof -
  have far: "fless (Fin 1) (fabs (fsub (Fin 0.5) (Fin 3)))"
    by (simp add: fsub_def)
  have "DistanceAwareSmoothUnion (Fin 0.5) (Fin 3) (Fin 0.25) (Fin 1) = std_min (Fin 0.5) (Fin 3)"
    by (rule DistanceAwareSmoothUnion_far_apart [OF far])
  then show ?thesis
    using far by (simp add: std_min_def)
qed

section \<open>The comparison of floating-point values\<close>

lemma fless_irrefl: "\<not> fless a a"
  by (cases a) simp_all

lemma fless_trans: "fless a b \<Longrightarrow> fless b c \<Longrightarrow> fless a c"
  by (cases a; cases b; cases c) simp_all

lemma fless_not_NaN: "fless a b \<Longrightarrow> a \<noteq> NaN \<and> b \<noteq> NaN"
  by (cases a; cases b) simp_all

lemma fless_total: "a \<noteq> NaN \<Longrightarrow> b \<noteq> NaN \<Longrightarrow> fless a b \<or> a = b \<or> fless b a"
  by (cases a; cases b) auto

lemma not_fless_PInf: "a \<noteq> NaN \<Longrightarrow> \<not> fless a PInf \<Longrightarrow> a = PInf"
  by (cases a) simp_all

section \<open>The scene evaluator\<close>

text \<open>
  One pass of the loop either keeps the pair it started with, and then no
  primitive of the list is nearer than the start distance, or ends with the
  distance and material of the earliest primitive that attains the least distance.
\<close>

lemma evaluate_primitive_list: "evaluate_primitive p prim ps = evaluate_primitive p prim ps'"
  by (simp add: evaluate_primitive_def)

lemma evaluate_primitive_eq: "evaluate_primitive p prim ps = (prim_dist p prim, prim_mat p prim)"
  by (simp add: prim_dist_def prim_mat_def evaluate_primitive_list [of p prim ps "[]"])

lemma scene_sdf_loop_Cons:
  "scene_sdf_loop p ps (x # xs) m0 c0 =
     (if fless (prim_dist p x) m0 then scene_sdf_loop p ps xs (prim_dist p x) (Some (prim_mat p x))
      else scene_sdf_loop p ps xs m0 c0)"
  by (simp add: evaluate_primitive_eq)

declare scene_sdf_loop.simps(2) [simp del]

lemma scene_sdf_loop_cases:
  assumes "scene_sdf_loop p ps xs m0 c0 = (m, c)"
  shows "(m = m0 \<and> c = c0 \<and> (\<forall>x\<in>set xs. \<not> fless (prim_dist p x) m0))
       \<or> (\<exists>i<length xs. prim_dist p (xs ! i) = m \<and> c = Some (prim_mat p (xs ! i))
             \<and> fless m m0 \<and> (\<forall>j<i. prim_dist p (xs ! j) \<noteq> m)
             \<and> (\<forall>x\<in>set xs. \<not> fless (prim_dist p x) m))"
  using assms
proof (induction xs arbitrary: m0 c0)
  case Nil
  then show ?case by simp
next
  case (Cons x xs)
  let ?d = "prim_dist p x"
  show ?case
  proof (cases "fless ?d m0")
    case True
    with Cons.prems have run: "scene_sdf_loop p ps xs ?d (Some (prim_mat p x)) = (m, c)"
      by (simp add: scene_sdf_loop_Cons)
    from Cons.IH [OF run] show ?thesis
    proof (elim disjE conjE exE)
      assume "m = ?d" "c = Some (prim_mat p x)" "\<forall>y\<in>set xs. \<not> fless (prim_dist p y) ?d"
      with True have "0 < length (x # xs) \<and> prim_dist p ((x # xs) ! 0) = m
          \<and> c = Some (prim_mat p ((x # xs) ! 0)) \<and> fless m m0
          \<and> (\<forall>j<0. prim_dist p ((x # xs) ! j) \<noteq> m)
          \<and> (\<forall>y\<in>set (x # xs). \<not> fless (prim_dist p y) m)"
        by (simp add: fless_irrefl)
      then show ?thesis by blast
    next
      fix i
      assume i: "i < length xs" "prim_dist p (xs ! i) = m" "c = Some (prim_mat p (xs ! i))"
        "fless m ?d" "\<forall>j<i. prim_dist p (xs ! j) \<noteq> m" "\<forall>y\<in>set xs. \<not> fless (prim_dist p y) m"
      have neq: "?d \<noteq> m" using i(4) fless_irrefl by auto
      have nl: "\<not> fless ?d m" using i(4) fless_trans fless_irrefl by blast
      have "\<forall>j<Suc i. prim_dist p ((x # xs) ! j) \<noteq> m"
        using i(5) neq by (auto simp: less_Suc_eq_0_disj)
      with i True nl have "Suc i < length (x # xs) \<and> prim_dist p ((x # xs) ! Suc i) = m
          \<and> c = Some (prim_mat p ((x # xs) ! Suc i)) \<and> fless m m0
          \<and> (\<forall>j<Suc i. prim_dist p ((x # xs) ! j) \<noteq> m)
          \<and> (\<forall>y\<in>set (x # xs). \<not> fless (prim_dist p y) m)"
        using fless_trans by auto
      then show ?thesis by blast
    qed
  next
    case False
    with Cons.prems have run: "scene_sdf_loop p ps xs m0 c0 = (m, c)"
      by (simp add: scene_sdf_loop_Cons)
    from Cons.IH [OF run] show ?thesis
    proof (elim disjE conjE exE)
      assume "m = m0" "c = c0" "\<forall>y\<in>set xs. \<not> fless (prim_dist p y) m0"
      with False show ?thesis by simp
    next
      fix i
      assume i: "i < length xs" "prim_dist p (xs ! i) = m" "c = Some (prim_mat p (xs ! i))"
        "fless m m0" "\<forall>j<i. prim_dist p (xs ! j) \<noteq> m" "\<forall>y\<in>set xs. \<not> fless (prim_dist p y) m"
      have neq: "?d \<noteq> m" using i(4) False by auto
      have nl: "\<not> fless ?d m" using i(4) False fless_trans by blast
      have "\<forall>j<Suc i. prim_dist p ((x # xs) ! j) \<noteq> m"
        using i(5) neq by (auto simp: less_Suc_eq_0_disj)
      with i nl have "Suc i < length (x # xs) \<and> prim_dist p ((x # xs) ! Suc i) = m
          \<and> c = Some (prim_mat p ((x # xs) ! Suc i)) \<and> fless m m0
          \<and> (\<forall>j<Suc i. prim_dist p ((x # xs) ! j) \<noteq> m)
          \<and> (\<forall>y\<in>set (x # xs). \<not> fless (prim_dist p y) m)"
        by auto
      then show ?thesis by blast
    qed
  qed
qed

lemma scene_sdf_cases:
  assumes "scene_sdf p prims = (m, c)"
  shows "(m = PInf \<and> c = None \<and> (\<forall>x\<in>set prims. \<not> fless (prim_dist p x) PInf))
       \<or> (\<exists>i<length prims. prim_dist p (prims ! i) = m \<and> c = Some (prim_mat p (prims ! i))
             \<and> fless m PInf \<and> (\<forall>j<i. prim_dist p (prims ! j) \<noteq> m)
             \<and> (\<forall>x\<in>set prims. \<not> fless (prim_dist p x) m))"
  using scene_sdf_loop_cases [of p prims prims PInf None m c] assms
  by (simp add: scene_sdf_def)

lemma scene_sdf_lower_bound:
  assumes "x \<in> set prims"
  shows "\<not> fless (prim_dist p x) (fst (scene_sdf p prims))"
  using scene_sdf_cases [of p prims "fst (scene_sdf p prims)" "snd (scene_sdf p prims)"] assms
  by auto

lemma scene_sdf_attained:
  "fst (scene_sdf p prims) = PInf \<or> (\<exists>x\<in>set prims. prim_dist p x = fst (scene_sdf p prims))"
proof -
  obtain m c where mc: "scene_sdf p prims = (m, c)" by (cases "scene_sdf p prims")
  from scene_sdf_cases [OF mc] have "m = PInf \<or> (\<exists>x\<in>set prims. prim_dist p x = m)"
    using nth_mem by blast
  then show ?thesis by (simp add: mc)
qed

lemma scene_sdf_not_NaN: "fst (scene_sdf p prims) \<noteq> NaN"
proof -
  obtain m c where mc: "scene_sdf p prims = (m, c)" by (cases "scene_sdf p prims")
  from scene_sdf_cases [OF mc] have "m = PInf \<or> fless m PInf" by blast
  then have "m \<noteq> NaN" using fless_not_NaN by auto
  then show ?thesis by (simp add: mc)
qed

lemma minimum_unique:
  assumes "m \<noteq> NaN" "m' \<noteq> NaN"
    and "\<forall>d\<in>S. \<not> fless d m" "\<forall>d\<in>S. \<not> fless d m'"
    and "m = PInf \<or> m \<in> S" "m' = PInf \<or> m' \<in> S"
  shows "m = m'"
  using assms fless_total not_fless_PInf by metis

lemma scene_sdf_same_set:
  assumes "set prims' = set prims"
  shows "fst (scene_sdf p prims') = fst (scene_sdf p prims)"
proof (rule minimum_unique [where S = "prim_dist p ` set prims"])
  show "fst (scene_sdf p prims') \<noteq> NaN" "fst (scene_sdf p prims) \<noteq> NaN"
    by (rule scene_sdf_not_NaN)+
  show "\<forall>d\<in>prim_dist p ` set prims. \<not> fless d (fst (scene_sdf p prims'))"
    using scene_sdf_lower_bound [of _ prims' p] assms by auto
  show "\<forall>d\<in>prim_dist p ` set prims. \<not> fless d (fst (scene_sdf p prims))"
    using scene_sdf_lower_bound [of _ prims p] by auto
  show "fst (scene_sdf p prims') = PInf \<or> fst (scene_sdf p prims') \<in> prim_dist p ` set prims"
    using scene_sdf_attained [of p prims'] assms by (metis imageI)
  show "fst (scene_sdf p prims) = PInf \<or> fst (scene_sdf p prims) \<in> prim_dist p ` set prims"
    using scene_sdf_attained [of p prims] by (metis imageI)
qed

lemma scene_sdf_Min:
  assumes "rs \<noteq> []" and eq: "map (prim_dist p) prims = map Fin rs"
  shows "fst (scene_sdf p prims) = Fin (Min (set rs))"
proof -
  let ?m = "fst (scene_sdf p prims)"
  have img: "prim_dist p ` set prims = Fin ` set rs"
    using eq by (metis set_map)
  obtain r where r: "r \<in> set rs" using assms(1) by (cases rs) auto
  then obtain x where x: "x \<in> set prims" "prim_dist p x = Fin r"
    using img by (metis (no_types, lifting) imageE image_eqI)
  have "?m \<noteq> PInf"
    using scene_sdf_lower_bound [OF x(1), of p] x(2) by (cases ?m) auto
  then obtain y where y: "y \<in> set prims" "prim_dist p y = ?m"
    using scene_sdf_attained [of p prims] by blast
  then obtain r0 where r0: "r0 \<in> set rs" "?m = Fin r0"
    using img by (metis imageE image_eqI)
  have "r0 \<le> s" if "s \<in> set rs" for s
  proof -
    from that obtain z where z: "z \<in> set prims" "prim_dist p z = Fin s"
      using img by (metis (no_types, lifting) imageE image_eqI)
    show ?thesis
      using scene_sdf_lower_bound [OF z(1), of p] z(2) r0(2) by simp
  qed
  then have "Min (set rs) = r0"
    using r0(1) by (intro Min_eqI) auto
  then show ?thesis using r0(2) by simp
qed

lemma scene_sdf_loop_foldl:
  "fst (scene_sdf_loop p ps xs m0 c0) = foldl (\<lambda>acc prim. csg_apply Union_op acc (prim_dist p prim)) m0 xs"
  by (induction xs arbitrary: m0 c0) (simp_all add: scene_sdf_loop_Cons py_min_def)

lemma evaluate_primitive_retag:
  "evaluate_primitive p (prim\<lparr>prim_csgOperation := c\<rparr>) ps = evaluate_primitive p prim ps'"
  by (simp add: evaluate_primitive_def cong: if_cong)

lemma scene_sdf_loop_retag:
  "scene_sdf_loop p ps (map (\<lambda>x. x\<lparr>prim_csgOperation := f x\<rparr>) xs) m0 c0
   = scene_sdf_loop p ps' xs m0 c0"
proof (induction xs arbitrary: m0 c0)
  case Nil
  then show ?case by simp
next
  case (Cons x xs)
  have "evaluate_primitive p (x\<lparr>prim_csgOperation := f x\<rparr>) ps = evaluate_primitive p x ps'"
    by (rule evaluate_primitive_retag)
  then show ?case using Cons.IH by (simp add: scene_sdf_loop.simps(2) split: prod.split)
qed

subsection \<open>The example scenes\<close>

lemma get_default_simps [simp]: "get_default None d = d" "get_default (Some x) d = x"
  by (simp_all add: get_default_def)

lemma prim_dist_sphere_origin [simp]:
  "prim_dist origin (sphere_at origin mat op) = Fin (- (1 / 2))"
  by (simp add: prim_dist_def evaluate_primitive_def sphere_at_def origin_def get_default_def
      empty_params_def sdf_sphere_def norm3_def fsub_def)

lemma prim_dist_sphere_two [simp]:
  "prim_dist origin (sphere_at (Fin 2, Fin 0, Fin 0) mat op) = Fin (3 / 2)"
  by (simp add: prim_dist_def evaluate_primitive_def sphere_at_def origin_def get_default_def
      empty_params_def sdf_sphere_def norm3_def fsub_def)

lemma prim_dist_sphere_axis:
  "0 \<le> z \<Longrightarrow> prim_dist (Fin 0, Fin 0, Fin z) (sphere_at origin mat op) = Fin (z - 1 / 2)"
  by (simp add: prim_dist_def evaluate_primitive_def sphere_at_def origin_def
      empty_params_def sdf_sphere_def norm3_def fsub_def)

lemma prim_dist_unknown [simp]: "prim_dist p unknown_prim = PInf"
  by (simp add: prim_dist_def evaluate_primitive_def unknown_prim_def)

lemma prim_mat_sphere [simp]:
  "prim_mat p (sphere_at pos mat op) = get_default mat empty_material"
  by (simp add: prim_mat_def evaluate_primitive_def sphere_at_def)

lemma sphere_at_retag [simp]:
  "(sphere_at pos mat op)\<lparr>prim_csgOperation := c\<rparr> = sphere_at pos mat c"
  by (simp add: sphere_at_def)

lemma prim_csgOperation_sphere [simp]: "prim_csgOperation (sphere_at pos mat op) = op"
  by (simp add: sphere_at_def)

lemma prim_mat_unknown [simp]: "prim_mat p unknown_prim = empty_material"
  by (simp add: prim_mat_def evaluate_primitive_def unknown_prim_def get_default_def)

lemma scene_sdf_Nil [simp]: "scene_sdf p [] = (PInf, None)"
  by (simp add: scene_sdf_def)

lemma scene_sdf_unfold:
  "scene_sdf p (x # xs) =
     (if fless (prim_dist p x) PInf
      then scene_sdf_loop p (x # xs) xs (prim_dist p x) (Some (prim_mat p x))
      else scene_sdf_loop p (x # xs) xs PInf None)"
  by (simp add: scene_sdf_def scene_sdf_loop_Cons)

subsection \<open>The declared operator\<close>

text \<open>
  C2, as stated, fails: \<^verbatim>\<open>scene_sdf\<close> never reads \<^verbatim>\<open>csgOperation\<close>. For a sphere
  declared as a union followed by the same sphere declared as a subtraction, at
  the centre, the code returns the union \<open>min(-0.5, -0.5) = -0.5\<close>, where the fold
  with the declared operators gives \<open>max(-0.5, 0.5) = 0.5\<close>.
\<close>

theorem scene_sdf_ignores_declared_operator_counterexample:
  "fst (scene_sdf origin [sphere_at origin None Union_op, sphere_at origin None Subtraction_op])
     = Fin (- (1 / 2))
   \<and> declared_composite origin [sphere_at origin None Union_op, sphere_at origin None Subtraction_op]
     = Fin (1 / 2)"
  by (simp add: scene_sdf_unfold scene_sdf_loop_Cons declared_composite_def py_min_def py_max_def)

text \<open>
  C2, amended. For every point and every scene, the evaluator folds each
  primitive's local-frame distance into the running composite, in list order and
  from \<open>+inf\<close>, with the hard union \<open>min\<close>, whatever operator the primitives declare
  (changing the declared operators changes nothing); it returns that composite
  with the material of a primitive that attains it, or with no material when the
  composite is still \<open>+inf\<close>.
\<close>

theorem scene_sdf_hard_union_fold:
  "fst (scene_sdf p prims) = union_composite p prims
   \<and> scene_sdf p (map (\<lambda>x. x\<lparr>prim_csgOperation := f x\<rparr>) prims) = scene_sdf p prims
   \<and> ((fst (scene_sdf p prims) = PInf \<and> snd (scene_sdf p prims) = None)
       \<or> (\<exists>i<length prims. prim_dist p (prims ! i) = fst (scene_sdf p prims)
             \<and> snd (scene_sdf p prims) = Some (prim_mat p (prims ! i))))"
proof (intro conjI)
  show "fst (scene_sdf p prims) = union_composite p prims"
    by (simp add: scene_sdf_def union_composite_def scene_sdf_loop_foldl)
  show "scene_sdf p (map (\<lambda>x. x\<lparr>prim_csgOperation := f x\<rparr>) prims) = scene_sdf p prims"
    by (simp add: scene_sdf_def scene_sdf_loop_retag [where ps' = prims])
  obtain m c where mc: "scene_sdf p prims = (m, c)" by (cases "scene_sdf p prims")
  from scene_sdf_cases [OF mc]
  have "(m = PInf \<and> c = None)
      \<or> (\<exists>i<length prims. prim_dist p (prims ! i) = m \<and> c = Some (prim_mat p (prims ! i)))"
    by blast
  then show "(fst (scene_sdf p prims) = PInf \<and> snd (scene_sdf p prims) = None)
       \<or> (\<exists>i<length prims. prim_dist p (prims ! i) = fst (scene_sdf p prims)
             \<and> snd (scene_sdf p prims) = Some (prim_mat p (prims ! i)))"
    by (simp add: mc)
qed

theorem scene_sdf_hard_union_fold_witness:
  "fst (scene_sdf origin [sphere_at origin None Union_op, sphere_at origin None Subtraction_op])
     = union_composite origin [sphere_at origin None Union_op, sphere_at origin None Subtraction_op]
   \<and> union_composite origin [sphere_at origin None Union_op, sphere_at origin None Subtraction_op]
     = Fin (- (1 / 2))
   \<and> scene_sdf origin [sphere_at origin None Union_op, sphere_at origin None Union_op]
     = scene_sdf origin [sphere_at origin None Union_op, sphere_at origin None Subtraction_op]
   \<and> snd (scene_sdf origin [sphere_at origin None Union_op, sphere_at origin None Subtraction_op])
     = Some (prim_mat origin (sphere_at origin None Union_op))"
proof -
  let ?ps = "[sphere_at origin None Union_op, sphere_at origin None Subtraction_op]"
  have run: "scene_sdf origin ?ps = (Fin (- (1 / 2)), Some (prim_mat origin (sphere_at origin None Union_op)))"
    by (simp add: scene_sdf_unfold scene_sdf_loop_Cons)
  from scene_sdf_hard_union_fold [of origin ?ps "\<lambda>x. Union_op"] show ?thesis
    using run by simp
qed

subsection \<open>The least distance\<close>

text \<open>
  C7. The composite distance is the minimum of the distances of the primitives at
  \<open>p\<close>: no primitive is nearer, and the composite is the distance of one of them
  (or \<open>+inf\<close>, the value of the empty minimum); when every primitive has a finite
  distance it is the least of these numbers. It is the same for every permutation
  of the primitive list.
\<close>

theorem scene_sdf_distance_minimum:
  "(\<forall>x\<in>set prims. \<not> fless (prim_dist p x) (fst (scene_sdf p prims)))
   \<and> (fst (scene_sdf p prims) = PInf
       \<or> (\<exists>x\<in>set prims. prim_dist p x = fst (scene_sdf p prims)))
   \<and> (\<forall>rs. rs \<noteq> [] \<and> map (prim_dist p) prims = map Fin rs
         \<longrightarrow> fst (scene_sdf p prims) = Fin (Min (set rs)))
   \<and> (\<forall>prims'. mset prims' = mset prims
         \<longrightarrow> fst (scene_sdf p prims') = fst (scene_sdf p prims))"
  using scene_sdf_lower_bound [of _ prims p] scene_sdf_attained [of p prims]
    scene_sdf_Min [of _ p prims] scene_sdf_same_set [of _ prims p] mset_eq_setD
  by blast

theorem scene_sdf_distance_minimum_witness:
  "map (prim_dist origin)
       [sphere_at (Fin 2, Fin 0, Fin 0) None Union_op, sphere_at origin None Union_op]
     = map Fin [3 / 2, - (1 / 2)]
   \<and> mset [sphere_at origin None Union_op, sphere_at (Fin 2, Fin 0, Fin 0) None Union_op]
     = mset [sphere_at (Fin 2, Fin 0, Fin 0) None Union_op, sphere_at origin None Union_op]
   \<and> fst (scene_sdf origin
            [sphere_at (Fin 2, Fin 0, Fin 0) None Union_op, sphere_at origin None Union_op])
     = Fin (- (1 / 2))
   \<and> fst (scene_sdf origin
            [sphere_at origin None Union_op, sphere_at (Fin 2, Fin 0, Fin 0) None Union_op])
     = Fin (- (1 / 2))"
proof -
  let ?a = "sphere_at (Fin 2, Fin 0, Fin 0) None Union_op"
  let ?b = "sphere_at origin None Union_op"
  have ds: "map (prim_dist origin) [?a, ?b] = map Fin [3 / 2, - (1 / 2)]"
    by simp
  have perm: "mset [?b, ?a] = mset [?a, ?b]"
    by simp
  have "[3 / 2, - (1 / 2) :: real] \<noteq> []"
    by simp
  with ds perm scene_sdf_distance_minimum [of "[?a, ?b]" origin]
  have "fst (scene_sdf origin [?a, ?b]) = Fin (Min (set [3 / 2, - (1 / 2)]))"
    and "fst (scene_sdf origin [?b, ?a]) = fst (scene_sdf origin [?a, ?b])"
    by blast+
  then show ?thesis using ds perm by simp
qed

subsection \<open>The material on a tie\<close>

text \<open>
  C8, as stated, fails when the least distance is \<open>+inf\<close>: two primitives of an
  unknown type both evaluate to \<open>+inf\<close>, which is the composite distance, and the
  evaluator returns no material rather than the material of the first.
\<close>

theorem scene_sdf_tie_at_infinity_counterexample:
  "prim_dist origin unknown_prim = fst (scene_sdf origin [unknown_prim, unknown_prim])
   \<and> snd (scene_sdf origin [unknown_prim, unknown_prim]) \<noteq> Some (prim_mat origin unknown_prim)"
  by (simp add: scene_sdf_unfold scene_sdf_loop_Cons)

text \<open>
  C8, amended. The distance returned is minimal: no primitive of the list is
  nearer. When it is below \<open>+inf\<close>, the material returned is that of the earliest
  primitive of the list whose distance equals it, so on a tie at the minimal
  distance the first primitive encountered wins; when no primitive is nearer than
  \<open>+inf\<close> the distance is \<open>+inf\<close> and no material is returned.
\<close>

theorem scene_sdf_first_nearest_material:
  assumes "scene_sdf p prims = (m, c)"
  shows "(\<forall>x\<in>set prims. \<not> fless (prim_dist p x) m)
         \<and> (fless m PInf \<longrightarrow>
              (\<exists>i<length prims. prim_dist p (prims ! i) = m
                 \<and> (\<forall>j<i. prim_dist p (prims ! j) \<noteq> m)
                 \<and> c = Some (prim_mat p (prims ! i))))
         \<and> (\<not> fless m PInf \<longrightarrow> m = PInf \<and> c = None)"
proof (intro conjI)
  show "\<forall>x\<in>set prims. \<not> fless (prim_dist p x) m"
    using scene_sdf_cases [OF assms] by blast
  show "fless m PInf \<longrightarrow>
          (\<exists>i<length prims. prim_dist p (prims ! i) = m
             \<and> (\<forall>j<i. prim_dist p (prims ! j) \<noteq> m)
             \<and> c = Some (prim_mat p (prims ! i)))"
    using scene_sdf_cases [OF assms] by (auto simp: fless_irrefl)
  show "\<not> fless m PInf \<longrightarrow> m = PInf \<and> c = None"
    using scene_sdf_cases [OF assms] by auto
qed

text \<open>
  The witness is a scene of three spheres: a farther one first, then two equal
  ones that tie at the minimal distance. The material is that of the second
  primitive, the earlier of the two that tie, not that of the first primitive.
\<close>

theorem scene_sdf_first_nearest_material_witness:
  "scene_sdf origin [sphere_at (Fin 2, Fin 0, Fin 0) (Some red_material) Union_op,
                     sphere_at origin (Some blue_material) Union_op,
                     sphere_at origin (Some green_material) Union_op]
     = (Fin (- (1 / 2)), Some blue_material)
   \<and> fless (Fin (- (1 / 2))) PInf
   \<and> prim_dist origin (sphere_at (Fin 2, Fin 0, Fin 0) (Some red_material) Union_op) = Fin (3 / 2)
   \<and> prim_dist origin (sphere_at origin (Some blue_material) Union_op) = Fin (- (1 / 2))
   \<and> prim_dist origin (sphere_at origin (Some green_material) Union_op) = Fin (- (1 / 2))
   \<and> \<not> fless (prim_dist origin (sphere_at (Fin 2, Fin 0, Fin 0) (Some red_material) Union_op))
              (Fin (- (1 / 2)))
   \<and> (\<exists>i. i < Suc (Suc (Suc 0))
          \<and> prim_dist origin ([sphere_at (Fin 2, Fin 0, Fin 0) (Some red_material) Union_op,
                                sphere_at origin (Some blue_material) Union_op,
                                sphere_at origin (Some green_material) Union_op] ! i)
              = Fin (- (1 / 2))
          \<and> Some blue_material = Some (prim_mat origin
                  ([sphere_at (Fin 2, Fin 0, Fin 0) (Some red_material) Union_op,
                    sphere_at origin (Some blue_material) Union_op,
                    sphere_at origin (Some green_material) Union_op] ! i)))"
proof -
  let ?ps = "[sphere_at (Fin 2, Fin 0, Fin 0) (Some red_material) Union_op,
              sphere_at origin (Some blue_material) Union_op,
              sphere_at origin (Some green_material) Union_op]"
  have run: "scene_sdf origin ?ps = (Fin (- (1 / 2)), Some blue_material)"
    by (simp add: scene_sdf_unfold scene_sdf_loop_Cons)
  from scene_sdf_first_nearest_material [OF run] show ?thesis
    using run by simp blast
qed

section \<open>The raymarcher\<close>

lemma raymarch_loop_Suc:
  "raymarch_loop (Suc k) ro rd prims md t c =
     (if below_epsilon ro rd prims t
      then (Hit t (snd (scene_sdf (ray_point ro rd t) prims)) (ray_point ro rd t), Suc c)
      else if fless md (march_step ro rd prims t) then (Miss, Suc c)
      else raymarch_loop k ro rd prims md (march_step ro rd prims t) (Suc c))"
  by (simp add: below_epsilon_def scene_dist_at_def march_step_def ray_point_def Let_def
      split: prod.split)

declare raymarch_loop.simps(2) [simp del]

lemma raymarch_loop_trace:
  assumes "raymarch_loop (Suc k) ro rd prims md t c = (r, n)"
  shows "\<exists>i\<le>k. n = Suc (c + i)
     \<and> (\<forall>j<i. \<not> below_epsilon ro rd prims ((march_step ro rd prims ^^ j) t)
             \<and> \<not> fless md ((march_step ro rd prims ^^ Suc j) t))
     \<and> (case r of
           Hit t' m q \<Rightarrow> below_epsilon ro rd prims ((march_step ro rd prims ^^ i) t)
             \<and> t' = (march_step ro rd prims ^^ i) t \<and> q = ray_point ro rd t'
             \<and> m = snd (scene_sdf q prims)
         | Miss \<Rightarrow> \<not> below_epsilon ro rd prims ((march_step ro rd prims ^^ i) t)
             \<and> (fless md ((march_step ro rd prims ^^ Suc i) t) \<or> i = k))"
  using assms
proof (induction k arbitrary: t c)
  case 0
  then show ?case
    by (auto simp: raymarch_loop_Suc split: if_splits)
next
  case (Suc k)
  let ?f = "march_step ro rd prims"
  show ?case
  proof (cases "below_epsilon ro rd prims t \<or> fless md (?f t)")
    case True
    with Suc.prems have "n = Suc (c + 0)
     \<and> (\<forall>j<0. \<not> below_epsilon ro rd prims ((?f ^^ j) t) \<and> \<not> fless md ((?f ^^ Suc j) t))
     \<and> (case r of
           Hit t' m q \<Rightarrow> below_epsilon ro rd prims ((?f ^^ 0) t)
             \<and> t' = (?f ^^ 0) t \<and> q = ray_point ro rd t' \<and> m = snd (scene_sdf q prims)
         | Miss \<Rightarrow> \<not> below_epsilon ro rd prims ((?f ^^ 0) t)
             \<and> (fless md ((?f ^^ Suc 0) t) \<or> 0 = Suc k))"
      by (auto simp: raymarch_loop_Suc [of "Suc k"] split: if_splits)
    then show ?thesis by blast
  next
    case False
    with Suc.prems have run: "raymarch_loop (Suc k) ro rd prims md (?f t) (Suc c) = (r, n)"
      by (simp add: raymarch_loop_Suc [of "Suc k"])
    from Suc.IH [OF run] obtain i where i: "i \<le> k" "n = Suc (Suc c + i)"
      "\<forall>j<i. \<not> below_epsilon ro rd prims ((?f ^^ j) (?f t)) \<and> \<not> fless md ((?f ^^ Suc j) (?f t))"
      "case r of
           Hit t' m q \<Rightarrow> below_epsilon ro rd prims ((?f ^^ i) (?f t))
             \<and> t' = (?f ^^ i) (?f t) \<and> q = ray_point ro rd t' \<and> m = snd (scene_sdf q prims)
         | Miss \<Rightarrow> \<not> below_epsilon ro rd prims ((?f ^^ i) (?f t))
             \<and> (fless md ((?f ^^ Suc i) (?f t)) \<or> i = k)"
      by blast
    have shift: "(?f ^^ j) (?f t) = (?f ^^ Suc j) t" for j
      by (simp add: funpow_swap1)
    have before: "\<forall>j<Suc i. \<not> below_epsilon ro rd prims ((?f ^^ j) t)
        \<and> \<not> fless md ((?f ^^ Suc j) t)"
    proof (intro allI impI)
      fix j assume "j < Suc i"
      show "\<not> below_epsilon ro rd prims ((?f ^^ j) t) \<and> \<not> fless md ((?f ^^ Suc j) t)"
      proof (cases j)
        case 0
        then show ?thesis using False by simp
      next
        case (Suc j')
        with \<open>j < Suc i\<close> have "j' < i" by simp
        with i(3) have "\<not> below_epsilon ro rd prims ((?f ^^ j') (?f t))
          \<and> \<not> fless md ((?f ^^ Suc j') (?f t))" by blast
        then show ?thesis unfolding shift Suc .
      qed
    qed
    have last: "case r of
           Hit t' m q \<Rightarrow> below_epsilon ro rd prims ((?f ^^ Suc i) t)
             \<and> t' = (?f ^^ Suc i) t \<and> q = ray_point ro rd t' \<and> m = snd (scene_sdf q prims)
         | Miss \<Rightarrow> \<not> below_epsilon ro rd prims ((?f ^^ Suc i) t)
             \<and> (fless md ((?f ^^ Suc (Suc i)) t) \<or> Suc i = Suc k)"
      using i(4) unfolding shift by (cases r) simp_all
    from i(1,2) before last show ?thesis
      by (intro exI [of _ "Suc i"]) simp
  qed
qed

lemma raymarch_counted_trace:
  assumes "raymarch_counted ro rd prims = (r, n)"
  shows "raymarch ro rd prims = r \<and> 1 \<le> n \<and> n \<le> 64
     \<and> (\<forall>j<n - 1. \<not> below_epsilon ro rd prims (travel ro rd prims j)
             \<and> \<not> fless (Fin 20) (travel ro rd prims (Suc j)))
     \<and> (case r of
           Hit t m q \<Rightarrow> below_epsilon ro rd prims (travel ro rd prims (n - 1))
             \<and> t = travel ro rd prims (n - 1) \<and> q = ray_point ro rd t
             \<and> m = snd (scene_sdf q prims)
         | Miss \<Rightarrow> \<not> below_epsilon ro rd prims (travel ro rd prims (n - 1))
             \<and> (fless (Fin 20) (travel ro rd prims n) \<or> n = 64))"
proof -
  have "raymarch_loop (Suc 63) ro rd prims (Fin 20) (Fin 0) 0 = (r, n)"
    using assms by (simp add: raymarch_counted_def)
  from raymarch_loop_trace [OF this] obtain i where i: "i \<le> 63" "n = Suc i"
    "\<forall>j<i. \<not> below_epsilon ro rd prims (travel ro rd prims j)
          \<and> \<not> fless (Fin 20) (travel ro rd prims (Suc j))"
    "case r of
       Hit t m q \<Rightarrow> below_epsilon ro rd prims (travel ro rd prims i)
         \<and> t = travel ro rd prims i \<and> q = ray_point ro rd t \<and> m = snd (scene_sdf q prims)
     | Miss \<Rightarrow> \<not> below_epsilon ro rd prims (travel ro rd prims i)
         \<and> (fless (Fin 20) (travel ro rd prims (Suc i)) \<or> i = 63)"
    unfolding travel_def by auto
  have "raymarch ro rd prims = r"
    using assms by (simp add: raymarch_def)
  moreover have "case r of
       Hit t m q \<Rightarrow> below_epsilon ro rd prims (travel ro rd prims (n - 1))
         \<and> t = travel ro rd prims (n - 1) \<and> q = ray_point ro rd t \<and> m = snd (scene_sdf q prims)
     | Miss \<Rightarrow> \<not> below_epsilon ro rd prims (travel ro rd prims (n - 1))
         \<and> (fless (Fin 20) (travel ro rd prims n) \<or> n = 64)"
    using i(4) i(2) by (cases r) auto
  ultimately show ?thesis using i(1,2,3) by simp
qed

lemma raymarch_counted_example:
  "raymarch_counted (Fin 0, Fin 0, Fin 3) (Fin 0, Fin 0, Fin (- 1)) [sphere_at origin None Union_op]
     = (Hit (Fin (5 / 2)) (Some empty_material) (Fin 0, Fin 0, Fin (1 / 2)), 2)"
  by (simp add: raymarch_counted_def eval_nat_numeral raymarch_loop_Suc below_epsilon_def
      scene_dist_at_def march_step_def ray_point_def scene_sdf_unfold prim_dist_sphere_axis)

lemma raymarch_example:
  "raymarch (Fin 0, Fin 0, Fin 3) (Fin 0, Fin 0, Fin (- 1)) [sphere_at origin (Some red_material) Union_op]
     = Hit (Fin (5 / 2)) (Some red_material) (Fin 0, Fin 0, Fin (1 / 2))"
  by (simp add: raymarch_def raymarch_counted_def eval_nat_numeral raymarch_loop_Suc below_epsilon_def
      scene_dist_at_def march_step_def ray_point_def scene_sdf_unfold prim_dist_sphere_axis)

lemma raymarch_empty: "raymarch ro rd [] = Miss"
  by (simp add: raymarch_def raymarch_counted_def eval_nat_numeral raymarch_loop_Suc
      below_epsilon_def scene_dist_at_def march_step_def)

lemma raymarch_Hit_material:
  assumes "raymarch ro rd prims = Hit t mat q"
  shows "\<exists>i<length prims. mat = Some (prim_mat q (prims ! i))"
proof -
  obtain n where run: "raymarch_counted ro rd prims = (Hit t mat q, n)"
    using assms by (cases "raymarch_counted ro rd prims") (simp add: raymarch_def)
  from raymarch_counted_trace [OF run]
  have near: "below_epsilon ro rd prims t" and q: "q = ray_point ro rd t"
    and m: "mat = snd (scene_sdf q prims)"
    by simp_all
  from near q have lt: "fless (fst (scene_sdf q prims)) (Fin 0.001)"
    by (simp add: below_epsilon_def scene_dist_at_def)
  obtain d c where dc: "scene_sdf q prims = (d, c)" by (cases "scene_sdf q prims")
  with lt have "d \<noteq> PInf" by auto
  with scene_sdf_cases [OF dc] m dc show ?thesis by auto
qed

text \<open>
  C3. The raymarcher returns, for every ray and scene, a hit or a miss, after
  \<open>n\<close> scene evaluations with \<open>1 \<le> n \<le> 64\<close>. Before the last evaluation the scene
  distance was never below \<open>0.001\<close> and the travel never above \<open>20\<close>. A hit carries
  the travel, point and material of the last evaluation, where the distance is
  below \<open>0.001\<close> for the first time; a miss means that the distance is not below
  \<open>0.001\<close> at the last evaluation and that the travel then exceeds \<open>20\<close> or all
  \<open>64\<close> iterations are used.
\<close>

theorem raymarch_outcome:
  "\<exists>r n. raymarch_counted ro rd prims = (r, n) \<and> raymarch ro rd prims = r
     \<and> 1 \<le> n \<and> n \<le> 64
     \<and> (\<forall>j<n - 1. \<not> below_epsilon ro rd prims (travel ro rd prims j)
             \<and> \<not> fless (Fin 20) (travel ro rd prims (Suc j)))
     \<and> (case r of
           Hit t m q \<Rightarrow> below_epsilon ro rd prims (travel ro rd prims (n - 1))
             \<and> t = travel ro rd prims (n - 1) \<and> q = ray_point ro rd t
             \<and> m = snd (scene_sdf q prims)
         | Miss \<Rightarrow> \<not> below_epsilon ro rd prims (travel ro rd prims (n - 1))
             \<and> (fless (Fin 20) (travel ro rd prims n) \<or> n = 64))"
proof -
  obtain r n where run: "raymarch_counted ro rd prims = (r, n)"
    by (cases "raymarch_counted ro rd prims")
  from raymarch_counted_trace [OF run] run show ?thesis
    by blast
qed

theorem raymarch_outcome_witness:
  "raymarch_counted (Fin 0, Fin 0, Fin 3) (Fin 0, Fin 0, Fin (- 1)) [sphere_at origin None Union_op]
     = (Hit (Fin (5 / 2)) (Some empty_material) (Fin 0, Fin 0, Fin (1 / 2)), 2)
   \<and> raymarch (Fin 0, Fin 0, Fin 3) (Fin 0, Fin 0, Fin (- 1)) [sphere_at origin None Union_op]
     = Hit (Fin (5 / 2)) (Some empty_material) (Fin 0, Fin 0, Fin (1 / 2))
   \<and> (2::nat) \<le> 64
   \<and> \<not> below_epsilon (Fin 0, Fin 0, Fin 3) (Fin 0, Fin 0, Fin (- 1))
         [sphere_at origin None Union_op]
         (travel (Fin 0, Fin 0, Fin 3) (Fin 0, Fin 0, Fin (- 1)) [sphere_at origin None Union_op] 0)
   \<and> below_epsilon (Fin 0, Fin 0, Fin 3) (Fin 0, Fin 0, Fin (- 1))
         [sphere_at origin None Union_op]
         (travel (Fin 0, Fin 0, Fin 3) (Fin 0, Fin 0, Fin (- 1)) [sphere_at origin None Union_op] 1)
   \<and> travel (Fin 0, Fin 0, Fin 3) (Fin 0, Fin 0, Fin (- 1)) [sphere_at origin None Union_op] 1
     = Fin (5 / 2)"
proof -
  let ?ro = "(Fin 0, Fin 0, Fin 3)" and ?rd = "(Fin 0, Fin 0, Fin (- 1))"
  let ?ps = "[sphere_at origin None Union_op]"
  have run: "raymarch_counted ?ro ?rd ?ps
     = (Hit (Fin (5 / 2)) (Some empty_material) (Fin 0, Fin 0, Fin (1 / 2)), 2)"
    by (rule raymarch_counted_example)
  from raymarch_outcome [of ?ro ?rd ?ps] show ?thesis
    unfolding run by simp
qed

section \<open>The ellipsoid\<close>

text \<open>
  C5, as stated, fails: at the centre of an ellipsoid \<open>k1\<close> is zero and the code
  returns \<open>-1\<close>, a negative distance (inside the solid), not a large positive one.
\<close>

theorem sdf_ellipsoid_center_counterexample:
  "ellipsoid_k1 origin (Fin 0.5, Fin 0.5, Fin 0.5) = Fin 0
   \<and> sdf_ellipsoid origin (Fin 0.5, Fin 0.5, Fin 0.5) = Fin (- 1)
   \<and> \<not> fless (Fin 0) (sdf_ellipsoid origin (Fin 0.5, Fin 0.5, Fin 0.5))"
  by (simp add: sdf_ellipsoid_def ellipsoid_k1_def origin_def norm3_def)

text \<open>
  C5, amended. If \<open>k1\<close> is not above \<open>1e-10\<close> (NaN included), the ellipsoid distance
  function performs no division and returns the constant \<open>-1\<close>, which is not NaN.
\<close>

theorem sdf_ellipsoid_degenerate:
  assumes "\<not> fless (Fin (1 / 10 ^ 10)) (ellipsoid_k1 p radii)"
  shows "sdf_ellipsoid p radii = Fin (- 1) \<and> sdf_ellipsoid p radii \<noteq> NaN"
  using assms by (simp add: sdf_ellipsoid_def ellipsoid_k1_def)

theorem sdf_ellipsoid_degenerate_witness:
  "\<not> fless (Fin (1 / 10 ^ 10)) (ellipsoid_k1 origin (Fin 0.5, Fin 0.5, Fin 0.5))
   \<and> sdf_ellipsoid origin (Fin 0.5, Fin 0.5, Fin 0.5) = Fin (- 1)"
proof -
  have k1: "\<not> fless (Fin (1 / 10 ^ 10)) (ellipsoid_k1 origin (Fin 0.5, Fin 0.5, Fin 0.5))"
    by (simp add: ellipsoid_k1_def origin_def norm3_def)
  from sdf_ellipsoid_degenerate [OF k1] show ?thesis
    using k1 by simp
qed

section \<open>The image\<close>

text \<open>
  C4, as stated, fails: for an empty primitive list \<^verbatim>\<open>render_asset\<close> returns \<open>None\<close>
  and no image exists.
\<close>

theorem render_empty_scene_counterexample:
  "render_asset empty_scene_asset 512 512 = Inr None
   \<and> \<not> (\<exists>img. render_asset empty_scene_asset 512 512 = Inr (Some img))"
  by (simp add: render_asset_def empty_scene_asset_def empty_sdf_model_def)

text \<open>
  C4, amended. For every width and height, \<^verbatim>\<open>render_asset\<close> on an asset whose
  primitive list is empty or absent returns \<open>None\<close>, no image; a single pixel
  rendered against an empty primitive list (\<^verbatim>\<open>render_pixel\<close>, width and height not
  zero) is \<open>(0, 0, 0, 0)\<close>, with alpha \<open>0\<close>.
\<close>

theorem render_empty_scene:
  "(get_default (model_primitives (get_default (sdfModel asset_data) empty_sdf_model)) [] = []
      \<longrightarrow> render_asset asset_data w h = Inr None)
   \<and> (width \<noteq> 0 \<and> height \<noteq> 0
      \<longrightarrow> render_pixel x y width height camera_pos camera_target [] light_dir = Inr (0, 0, 0, 0))"
  by (simp add: render_asset_def render_pixel_def raymarch_empty)

theorem render_empty_scene_witness:
  "get_default (model_primitives (get_default (sdfModel empty_scene_asset) empty_sdf_model)) [] = []
   \<and> render_asset empty_scene_asset 512 512 = Inr None
   \<and> (512::int) \<noteq> 0
   \<and> render_pixel 0 0 512 512 origin origin [] origin = Inr (0, 0, 0, 0)"
  using render_empty_scene [of empty_scene_asset 512 512 512 512 0 0 origin origin origin]
  by (simp add: empty_scene_asset_def empty_sdf_model_def)

text \<open>
  C10. Two assets that differ only in the \<^verbatim>\<open>fov\<close> of their camera render the same
  result, for every width and height: \<^verbatim>\<open>render_asset\<close> never reads the field, and
  the ray through every pixel is the projection of the specification with the
  fixed field of view of \<open>35\<close> degrees, that is with the factor
  \<open>tan(35 * pi / 360)\<close>, whatever the asset says.
\<close>

theorem render_asset_ignores_fov:
  "render_asset (asset_data\<lparr>sdfModel := Some (m\<lparr>model_camera := Some (cam\<lparr>cam_fov := f1\<rparr>)\<rparr>)\<rparr>) w h
   = render_asset (asset_data\<lparr>sdfModel := Some (m\<lparr>model_camera := Some (cam\<lparr>cam_fov := f2\<rparr>)\<rparr>)\<rparr>) w h
   \<and> pixel_ray_dir x y width height camera_pos camera_target
     = projected_ray_dir (tan (35 * pi / 360)) x y width height camera_pos camera_target"
proof
  show "render_asset (asset_data\<lparr>sdfModel := Some (m\<lparr>model_camera := Some (cam\<lparr>cam_fov := f1\<rparr>)\<rparr>)\<rparr>) w h
   = render_asset (asset_data\<lparr>sdfModel := Some (m\<lparr>model_camera := Some (cam\<lparr>cam_fov := f2\<rparr>)\<rparr>)\<rparr>) w h"
    by (simp add: render_asset_def Let_def)
  have half: "35 * pi / 180 / 2 = 35 * pi / 360"
    by simp
  show "pixel_ray_dir x y width height camera_pos camera_target
     = projected_ray_dir (tan (35 * pi / 360)) x y width height camera_pos camera_target"
    unfolding pixel_ray_dir_def projected_ray_dir_def Let_def half ..
qed

section \<open>Shading\<close>

lemma np_clip_unit: "np_clip c (Fin 0) (Fin 1) = NaN
    \<or> (\<exists>r. np_clip c (Fin 0) (Fin 1) = Fin r \<and> 0 \<le> r \<and> r \<le> 1)"
  by (cases c) (auto simp: np_clip_def np_maximum_def np_minimum_def)

lemma shaded_channel_unit: "shaded_channel a e s l = NaN
    \<or> (\<exists>r. shaded_channel a e s l = Fin r \<and> 0 \<le> r \<and> r \<le> 1)"
  unfolding shaded_channel_def by (rule np_clip_unit)

lemma pixel_ray_dir_center:
  "pixel_ray_dir 1 1 2 2 (Fin 0, Fin 0, Fin 3) origin = (Fin 0, Fin 0, Fin (- 1))"
  by (simp add: pixel_ray_dir_def normalize_vec_def norm3_def origin_def fsub_def Let_def)

text \<open>
  C9. For every pixel whose ray hits, the hit carries a material, and the pixel
  is the shaded colour of the specification, computed from that material, the
  normal at the hit point and the light direction and clamped to \<open>[0, 1]\<close> per
  channel, then scaled by \<open>255\<close> and truncated, with alpha \<open>255\<close>. A channel that is
  NaN makes \<^verbatim>\<open>int\<close> raise \<^verbatim>\<open>ValueError\<close> instead.
\<close>

theorem render_pixel_hit_color:
  assumes "width \<noteq> 0" and "height \<noteq> 0"
    and hit: "raymarch camera_pos (pixel_ray_dir x y width height camera_pos camera_target) prims
                = Hit t mat hit_point"
  shows "\<exists>m c0 c1 c2. mat = Some m
     \<and> shaded_color m (calculate_normal hit_point prims) light_dir = (c0, c1, c2)
     \<and> (((c0 = NaN \<or> c1 = NaN \<or> c2 = NaN)
          \<and> render_pixel x y width height camera_pos camera_target prims light_dir = Inl ValueError)
        \<or> (\<exists>r g b. c0 = Fin r \<and> c1 = Fin g \<and> c2 = Fin b
              \<and> 0 \<le> r \<and> r \<le> 1 \<and> 0 \<le> g \<and> g \<le> 1 \<and> 0 \<le> b \<and> b \<le> 1
              \<and> render_pixel x y width height camera_pos camera_target prims light_dir
                  = Inr (\<lfloor>r * 255\<rfloor>, \<lfloor>g * 255\<rfloor>, \<lfloor>b * 255\<rfloor>, 255)))"
proof -
  from raymarch_Hit_material [OF hit] obtain m where m: "mat = Some m" by blast
  obtain a0 a1 a2 where a: "get_default (mat_albedo m) (Fin 0.7, Fin 0.7, Fin 0.7) = (a0, a1, a2)"
    by (cases "get_default (mat_albedo m) (Fin 0.7, Fin 0.7, Fin 0.7)")
  obtain e0 e1 e2 where e: "get_default (mat_emissive m) (Fin 0, Fin 0, Fin 0) = (e0, e1, e2)"
    by (cases "get_default (mat_emissive m) (Fin 0, Fin 0, Fin 0)")
  define s where "s = get_default (mat_emissiveStrength m) (Fin 0)"
  define l where "l = py_max (Fin 0) (dot (calculate_normal hit_point prims) (vneg light_dir))"
  define c0 where "c0 = shaded_channel a0 e0 s l"
  define c1 where "c1 = shaded_channel a1 e1 s l"
  define c2 where "c2 = shaded_channel a2 e2 s l"
  have col: "shaded_color m (calculate_normal hit_point prims) light_dir = (c0, c1, c2)"
    by (simp add: shaded_color_def a e s_def l_def c0_def c1_def c2_def Let_def)
  have px: "render_pixel x y width height camera_pos camera_target prims light_dir =
      (case py_int (fmul c0 (Fin 255)) of Inl err \<Rightarrow> Inl err
       | Inr r \<Rightarrow> (case py_int (fmul c1 (Fin 255)) of Inl err \<Rightarrow> Inl err
       | Inr g \<Rightarrow> (case py_int (fmul c2 (Fin 255)) of Inl err \<Rightarrow> Inl err
       | Inr b \<Rightarrow> Inr (r, g, b, 255))))"
    unfolding c0_def c1_def c2_def shaded_channel_def s_def l_def
    using assms(1,2) hit by (simp add: render_pixel_def m a e Let_def)
  have u0: "c0 = NaN \<or> (\<exists>r. c0 = Fin r \<and> 0 \<le> r \<and> r \<le> 1)"
    unfolding c0_def by (rule shaded_channel_unit)
  have u1: "c1 = NaN \<or> (\<exists>r. c1 = Fin r \<and> 0 \<le> r \<and> r \<le> 1)"
    unfolding c1_def by (rule shaded_channel_unit)
  have u2: "c2 = NaN \<or> (\<exists>r. c2 = Fin r \<and> 0 \<le> r \<and> r \<le> 1)"
    unfolding c2_def by (rule shaded_channel_unit)
  have "((c0 = NaN \<or> c1 = NaN \<or> c2 = NaN)
          \<and> render_pixel x y width height camera_pos camera_target prims light_dir = Inl ValueError)
        \<or> (\<exists>r g b. c0 = Fin r \<and> c1 = Fin g \<and> c2 = Fin b
              \<and> 0 \<le> r \<and> r \<le> 1 \<and> 0 \<le> g \<and> g \<le> 1 \<and> 0 \<le> b \<and> b \<le> 1
              \<and> render_pixel x y width height camera_pos camera_target prims light_dir
                  = Inr (\<lfloor>r * 255\<rfloor>, \<lfloor>g * 255\<rfloor>, \<lfloor>b * 255\<rfloor>, 255))"
    using u0 u1 u2 unfolding px by (elim disjE exE conjE) simp_all
  with m col show ?thesis by blast
qed

theorem render_pixel_hit_color_witness:
  "(2::int) \<noteq> 0
   \<and> raymarch (Fin 0, Fin 0, Fin 3) (pixel_ray_dir 1 1 2 2 (Fin 0, Fin 0, Fin 3) origin)
        [sphere_at origin (Some red_material) Union_op]
      = Hit (Fin (5 / 2)) (Some red_material) (Fin 0, Fin 0, Fin (1 / 2))
   \<and> (\<exists>c0 c1 c2.
         shaded_color red_material
           (calculate_normal (Fin 0, Fin 0, Fin (1 / 2)) [sphere_at origin (Some red_material) Union_op])
           (Fin 0, Fin 0, Fin (- 1)) = (c0, c1, c2)
       \<and> (render_pixel 1 1 2 2 (Fin 0, Fin 0, Fin 3) origin
             [sphere_at origin (Some red_material) Union_op] (Fin 0, Fin 0, Fin (- 1)) = Inl ValueError
           \<or> (\<exists>r g b. c0 = Fin r \<and> c1 = Fin g \<and> c2 = Fin b
                \<and> render_pixel 1 1 2 2 (Fin 0, Fin 0, Fin 3) origin
                     [sphere_at origin (Some red_material) Union_op] (Fin 0, Fin 0, Fin (- 1))
                   = Inr (\<lfloor>r * 255\<rfloor>, \<lfloor>g * 255\<rfloor>, \<lfloor>b * 255\<rfloor>, 255))))"
proof -
  let ?cp = "(Fin 0, Fin 0, Fin 3)" and ?ps = "[sphere_at origin (Some red_material) Union_op]"
  have w: "(2::int) \<noteq> 0" by simp
  have hit: "raymarch ?cp (pixel_ray_dir 1 1 2 2 ?cp origin) ?ps
      = Hit (Fin (5 / 2)) (Some red_material) (Fin 0, Fin 0, Fin (1 / 2))"
    by (simp only: pixel_ray_dir_center raymarch_example)
  from render_pixel_hit_color [OF w w hit, of "(Fin 0, Fin 0, Fin (- 1))"] show ?thesis
    using hit by auto
qed

end
